theory Spec2Isabelle
  imports Main "HOL-Library.Sublist" "HOL-Library.AList"
begin

section \<open>The extension-host protocol (extHost.protocol.ts)\<close>

text \<open>
  The file declares the capability shapes of the two sides (TypeScript interfaces), two
  small namespaces with executable code (\<open>ObjectIdentifier\<close> and \<open>IdObject\<close>) and the
  two tables of proxy identifiers (\<open>MainContext\<close> and \<open>ExtHostContext\<close>). The
  declarations are embedded as data, the functions as HOL functions over a model of
  JavaScript objects.
\<close>

subsection \<open>Capability shapes\<close>

text \<open>
  An operation of a shape is its name, its parameters (name and type, as written in the
  declaration: a trailing \<open>?\<close> marks an optional parameter, a leading \<open>...\<close> a rest
  parameter) and its declared return type. Every operation of the protocol returns
  \<open>void\<close>, \<open>TPromise<X>\<close> or \<open>Thenable<X>\<close>; the payload type \<open>X\<close> is kept as text. The
  type parameter of the three generic operations (\<open>$executeCommand<T>\<close>, \<open>$getValue<T>\<close>,
  \<open>$executeContributedCommand<T>\<close>) is not recorded.
\<close>

datatype return_type = Void | TPromise string | Thenable string

datatype operation = Op (op_name: string) (op_params: "(string \<times> string) list") (op_returns: return_type)

record shape =
  shape_name :: string
  extends :: "string list"
  operations :: "operation list"

subsection \<open>Proxy identifiers\<close>

text \<open>
  \<open>ProxyIdentifier\<close>, \<open>createMainContextProxyIdentifier\<close> (imported as \<open>createMainId\<close>) and
  \<open>createExtHostContextProxyIdentifier\<close> (imported as \<open>createExtId\<close>) live in
  \<open>vs/workbench/services/thread/common/threadService\<close>, which is not part of the source
  at hand.
\<close>

datatype side = Host | Extension

text \<open>
  Modelled from the spec: the class \<open>ProxyIdentifier\<close> of threadService is missing; the
  data model gives it as \<open>{name: string, side: Host|Extension}\<close>.
\<close>

record ProxyIdentifier =
  name :: string
  side :: side

text \<open>
  Modelled from the spec: \<open>createMainContextProxyIdentifier\<close> of threadService is missing;
  \<open>register(name, side)\<close> yields the identifier of that name on the host side.
\<close>

definition createMainId :: "string \<Rightarrow> ProxyIdentifier" where
  "createMainId nm = \<lparr>name = nm, side = Host\<rparr>"

text \<open>
  Modelled from the spec: \<open>createExtHostContextProxyIdentifier\<close> of threadService is
  missing; \<open>register(name, side)\<close> yields the identifier of that name on the extension side.
\<close>

definition createExtId :: "string \<Rightarrow> ProxyIdentifier" where
  "createExtId nm = \<lparr>name = nm, side = Extension\<rparr>"

text \<open>
  An entry of a context table: the key of the object literal, the shape given as type
  argument, and the identifier that the call creates.
\<close>

datatype context_entry = Entry (entry_key: string) (entry_shape: shape) (entry_id: ProxyIdentifier)

subsection \<open>The shapes of the main thread\<close>

definition MainThreadCommandsShape :: shape where
  "MainThreadCommandsShape = \<lparr>
     shape_name = ''MainThreadCommandsShape'',
     extends = [''IDisposable''],
     operations = [
       Op ''$registerCommand'' [(''id'', ''string'')] (TPromise ''any''),
       Op ''$unregisterCommand'' [(''id'', ''string'')] (TPromise ''any''),
       Op ''$executeCommand'' [(''id'', ''string''), (''args'', ''any[]'')] (Thenable ''T''),
       Op ''$getCommands'' [] (Thenable ''string[]'')
     ]\<rparr>"

definition MainThreadConfigurationShape :: shape where
  "MainThreadConfigurationShape = \<lparr>
     shape_name = ''MainThreadConfigurationShape'',
     extends = [''IDisposable''],
     operations = [
       Op ''$updateConfigurationOption'' [(''target'', ''ConfigurationTarget''), (''key'', ''string''), (''value'', ''any''), (''resource'', ''URI'')] (TPromise ''void''),
       Op ''$removeConfigurationOption'' [(''target'', ''ConfigurationTarget''), (''key'', ''string''), (''resource'', ''URI'')] (TPromise ''void'')
     ]\<rparr>"

definition MainThreadDiagnosticsShape :: shape where
  "MainThreadDiagnosticsShape = \<lparr>
     shape_name = ''MainThreadDiagnosticsShape'',
     extends = [''IDisposable''],
     operations = [
       Op ''$changeMany'' [(''owner'', ''string''), (''entries'', ''[URI, IMarkerData[]][]'')] (TPromise ''any''),
       Op ''$clear'' [(''owner'', ''string'')] (TPromise ''any'')
     ]\<rparr>"

definition MainThreadDiaglogsShape :: shape where
  "MainThreadDiaglogsShape = \<lparr>
     shape_name = ''MainThreadDiaglogsShape'',
     extends = [''IDisposable''],
     operations = [
       Op ''$showOpenDialog'' [(''options'', ''MainThreadDialogOpenOptions'')] (TPromise ''string[]''),
       Op ''$showSaveDialog'' [(''options'', ''MainThreadDialogSaveOptions'')] (TPromise ''string'')
     ]\<rparr>"

definition MainThreadDecorationsShape :: shape where
  "MainThreadDecorationsShape = \<lparr>
     shape_name = ''MainThreadDecorationsShape'',
     extends = [''IDisposable''],
     operations = [
       Op ''$registerDecorationProvider'' [(''handle'', ''number''), (''label'', ''string'')] (Void),
       Op ''$unregisterDecorationProvider'' [(''handle'', ''number'')] (Void),
       Op ''$onDidChange'' [(''handle'', ''number''), (''resources'', ''URI[]'')] (Void)
     ]\<rparr>"

definition MainThreadDocumentContentProvidersShape :: shape where
  "MainThreadDocumentContentProvidersShape = \<lparr>
     shape_name = ''MainThreadDocumentContentProvidersShape'',
     extends = [''IDisposable''],
     operations = [
       Op ''$registerTextContentProvider'' [(''handle'', ''number''), (''scheme'', ''string'')] (Void),
       Op ''$unregisterTextContentProvider'' [(''handle'', ''number'')] (Void),
       Op ''$onVirtualDocumentChange'' [(''uri'', ''URI''), (''value'', ''ITextSource'')] (Void)
     ]\<rparr>"

definition MainThreadDocumentsShape :: shape where
  "MainThreadDocumentsShape = \<lparr>
     shape_name = ''MainThreadDocumentsShape'',
     extends = [''IDisposable''],
     operations = [
       Op ''$tryCreateDocument'' [(''options?'', ''{ language?: string; content?: string; }'')] (TPromise ''any''),
       Op ''$tryOpenDocument'' [(''uri'', ''URI'')] (TPromise ''any''),
       Op ''$trySaveDocument'' [(''uri'', ''URI'')] (TPromise ''boolean'')
     ]\<rparr>"

definition MainThreadEditorsShape :: shape where
  "MainThreadEditorsShape = \<lparr>
     shape_name = ''MainThreadEditorsShape'',
     extends = [''IDisposable''],
     operations = [
       Op ''$tryShowTextDocument'' [(''resource'', ''URI''), (''options'', ''ITextDocumentShowOptions'')] (TPromise ''string''),
       Op ''$registerTextEditorDecorationType'' [(''key'', ''string''), (''options'', ''editorCommon.IDecorationRenderOptions'')] (Void),
       Op ''$removeTextEditorDecorationType'' [(''key'', ''string'')] (Void),
       Op ''$tryShowEditor'' [(''id'', ''string''), (''position'', ''EditorPosition'')] (TPromise ''void''),
       Op ''$tryHideEditor'' [(''id'', ''string'')] (TPromise ''void''),
       Op ''$trySetOptions'' [(''id'', ''string''), (''options'', ''ITextEditorConfigurationUpdate'')] (TPromise ''any''),
       Op ''$trySetDecorations'' [(''id'', ''string''), (''key'', ''string''), (''ranges'', ''editorCommon.IDecorationOptions[]'')] (TPromise ''any''),
       Op ''$trySetDecorationsFast'' [(''id'', ''string''), (''key'', ''string''), (''ranges'', ''string'')] (TPromise ''any''),
       Op ''$tryRevealRange'' [(''id'', ''string''), (''range'', ''IRange''), (''revealType'', ''TextEditorRevealType'')] (TPromise ''any''),
       Op ''$trySetSelections'' [(''id'', ''string''), (''selections'', ''ISelection[]'')] (TPromise ''any''),
       Op ''$tryApplyEdits'' [(''id'', ''string''), (''modelVersionId'', ''number''), (''edits'', ''editorCommon.ISingleEditOperation[]''), (''opts'', ''IApplyEditsOptions'')] (TPromise ''boolean''),
       Op ''$tryApplyWorkspaceEdit'' [(''workspaceResourceEdits'', ''IWorkspaceResourceEdit[]'')] (TPromise ''boolean''),
       Op ''$tryInsertSnippet'' [(''id'', ''string''), (''template'', ''string''), (''selections'', ''IRange[]''), (''opts'', ''IUndoStopOptions'')] (TPromise ''any''),
       Op ''$getDiffInformation'' [(''id'', ''string'')] (TPromise ''editorCommon.ILineChange[]'')
     ]\<rparr>"

definition MainThreadTreeViewsShape :: shape where
  "MainThreadTreeViewsShape = \<lparr>
     shape_name = ''MainThreadTreeViewsShape'',
     extends = [''IDisposable''],
     operations = [
       Op ''$registerView'' [(''treeViewId'', ''string'')] (Void),
       Op ''$refresh'' [(''treeViewId'', ''string''), (''treeItemHandles'', ''number[]'')] (Void)
     ]\<rparr>"

definition MainThreadErrorsShape :: shape where
  "MainThreadErrorsShape = \<lparr>
     shape_name = ''MainThreadErrorsShape'',
     extends = [''IDisposable''],
     operations = [
       Op ''$onUnexpectedError'' [(''err'', ''any | SerializedError''), (''extensionId'', ''string | undefined'')] (Void)
     ]\<rparr>"

definition MainThreadLanguageFeaturesShape :: shape where
  "MainThreadLanguageFeaturesShape = \<lparr>
     shape_name = ''MainThreadLanguageFeaturesShape'',
     extends = [''IDisposable''],
     operations = [
       Op ''$unregister'' [(''handle'', ''number'')] (TPromise ''any''),
       Op ''$registerOutlineSupport'' [(''handle'', ''number''), (''selector'', ''vscode.DocumentSelector'')] (TPromise ''any''),
       Op ''$registerCodeLensSupport'' [(''handle'', ''number''), (''selector'', ''vscode.DocumentSelector''), (''eventHandle'', ''number'')] (TPromise ''any''),
       Op ''$emitCodeLensEvent'' [(''eventHandle'', ''number''), (''event?'', ''any'')] (TPromise ''any''),
       Op ''$registerDeclaractionSupport'' [(''handle'', ''number''), (''selector'', ''vscode.DocumentSelector'')] (TPromise ''any''),
       Op ''$registerImplementationSupport'' [(''handle'', ''number''), (''selector'', ''vscode.DocumentSelector'')] (TPromise ''any''),
       Op ''$registerTypeDefinitionSupport'' [(''handle'', ''number''), (''selector'', ''vscode.DocumentSelector'')] (TPromise ''any''),
       Op ''$registerHoverProvider'' [(''handle'', ''number''), (''selector'', ''vscode.DocumentSelector'')] (TPromise ''any''),
       Op ''$registerDocumentHighlightProvider'' [(''handle'', ''number''), (''selector'', ''vscode.DocumentSelector'')] (TPromise ''any''),
       Op ''$registerReferenceSupport'' [(''handle'', ''number''), (''selector'', ''vscode.DocumentSelector'')] (TPromise ''any''),
       Op ''$registerQuickFixSupport'' [(''handle'', ''number''), (''selector'', ''vscode.DocumentSelector'')] (TPromise ''any''),
       Op ''$registerDocumentFormattingSupport'' [(''handle'', ''number''), (''selector'', ''vscode.DocumentSelector'')] (TPromise ''any''),
       Op ''$registerRangeFormattingSupport'' [(''handle'', ''number''), (''selector'', ''vscode.DocumentSelector'')] (TPromise ''any''),
       Op ''$registerOnTypeFormattingSupport'' [(''handle'', ''number''), (''selector'', ''vscode.DocumentSelector''), (''autoFormatTriggerCharacters'', ''string[]'')] (TPromise ''any''),
       Op ''$registerNavigateTypeSupport'' [(''handle'', ''number'')] (TPromise ''any''),
       Op ''$registerRenameSupport'' [(''handle'', ''number''), (''selector'', ''vscode.DocumentSelector'')] (TPromise ''any''),
       Op ''$registerSuggestSupport'' [(''handle'', ''number''), (''selector'', ''vscode.DocumentSelector''), (''triggerCharacters'', ''string[]''), (''supportsResolveDetails'', ''boolean'')] (TPromise ''any''),
       Op ''$registerSignatureHelpProvider'' [(''handle'', ''number''), (''selector'', ''vscode.DocumentSelector''), (''triggerCharacter'', ''string[]'')] (TPromise ''any''),
       Op ''$registerDocumentLinkProvider'' [(''handle'', ''number''), (''selector'', ''vscode.DocumentSelector'')] (TPromise ''any''),
       Op ''$registerDocumentColorProvider'' [(''handle'', ''number''), (''selector'', ''vscode.DocumentSelector'')] (TPromise ''any''),
       Op ''$setLanguageConfiguration'' [(''handle'', ''number''), (''languageId'', ''string''), (''configuration'', ''vscode.LanguageConfiguration'')] (TPromise ''any'')
     ]\<rparr>"

definition MainThreadLanguagesShape :: shape where
  "MainThreadLanguagesShape = \<lparr>
     shape_name = ''MainThreadLanguagesShape'',
     extends = [''IDisposable''],
     operations = [
       Op ''$getLanguages'' [] (TPromise ''string[]'')
     ]\<rparr>"

definition MainThreadMessageServiceShape :: shape where
  "MainThreadMessageServiceShape = \<lparr>
     shape_name = ''MainThreadMessageServiceShape'',
     extends = [''IDisposable''],
     operations = [
       Op ''$showMessage'' [(''severity'', ''Severity''), (''message'', ''string''), (''options'', ''MainThreadMessageOptions''), (''commands'', ''{ title: string; isCloseAffordance: boolean; handle: number; }[]'')] (Thenable ''number'')
     ]\<rparr>"

definition MainThreadOutputServiceShape :: shape where
  "MainThreadOutputServiceShape = \<lparr>
     shape_name = ''MainThreadOutputServiceShape'',
     extends = [''IDisposable''],
     operations = [
       Op ''$append'' [(''channelId'', ''string''), (''label'', ''string''), (''value'', ''string'')] (TPromise ''void''),
       Op ''$clear'' [(''channelId'', ''string''), (''label'', ''string'')] (TPromise ''void''),
       Op ''$dispose'' [(''channelId'', ''string''), (''label'', ''string'')] (TPromise ''void''),
       Op ''$reveal'' [(''channelId'', ''string''), (''label'', ''string''), (''preserveFocus'', ''boolean'')] (TPromise ''void''),
       Op ''$close'' [(''channelId'', ''string'')] (TPromise ''void'')
     ]\<rparr>"

definition MainThreadProgressShape :: shape where
  "MainThreadProgressShape = \<lparr>
     shape_name = ''MainThreadProgressShape'',
     extends = [''IDisposable''],
     operations = [
       Op ''$startProgress'' [(''handle'', ''number''), (''options'', ''IProgressOptions'')] (Void),
       Op ''$progressReport'' [(''handle'', ''number''), (''message'', ''IProgressStep'')] (Void),
       Op ''$progressEnd'' [(''handle'', ''number'')] (Void)
     ]\<rparr>"

definition MainThreadTerminalServiceShape :: shape where
  "MainThreadTerminalServiceShape = \<lparr>
     shape_name = ''MainThreadTerminalServiceShape'',
     extends = [''IDisposable''],
     operations = [
       Op ''$createTerminal'' [(''name?'', ''string''), (''shellPath?'', ''string''), (''shellArgs?'', ''string[]''), (''env?'', ''{ [key: string]: string }''), (''waitOnExit?'', ''boolean'')] (TPromise ''number''),
       Op ''$dispose'' [(''terminalId'', ''number'')] (Void),
       Op ''$hide'' [(''terminalId'', ''number'')] (Void),
       Op ''$sendText'' [(''terminalId'', ''number''), (''text'', ''string''), (''addNewLine'', ''boolean'')] (Void),
       Op ''$show'' [(''terminalId'', ''number''), (''preserveFocus'', ''boolean'')] (Void)
     ]\<rparr>"

definition MainThreadQuickOpenShape :: shape where
  "MainThreadQuickOpenShape = \<lparr>
     shape_name = ''MainThreadQuickOpenShape'',
     extends = [''IDisposable''],
     operations = [
       Op ''$show'' [(''options'', ''IPickOptions'')] (TPromise ''number''),
       Op ''$setItems'' [(''items'', ''MyQuickPickItems[]'')] (TPromise ''any''),
       Op ''$setError'' [(''error'', ''Error'')] (TPromise ''any''),
       Op ''$input'' [(''options'', ''vscode.InputBoxOptions''), (''validateInput'', ''boolean'')] (TPromise ''string'')
     ]\<rparr>"

definition MainThreadStatusBarShape :: shape where
  "MainThreadStatusBarShape = \<lparr>
     shape_name = ''MainThreadStatusBarShape'',
     extends = [''IDisposable''],
     operations = [
       Op ''$setEntry'' [(''id'', ''number''), (''extensionId'', ''string''), (''text'', ''string''), (''tooltip'', ''string''), (''command'', ''string''), (''color'', ''string | ThemeColor''), (''alignment'', ''MainThreadStatusBarAlignment''), (''priority'', ''number'')] (Void),
       Op ''$dispose'' [(''id'', ''number'')] (Void)
     ]\<rparr>"

definition MainThreadStorageShape :: shape where
  "MainThreadStorageShape = \<lparr>
     shape_name = ''MainThreadStorageShape'',
     extends = [''IDisposable''],
     operations = [
       Op ''$getValue'' [(''shared'', ''boolean''), (''key'', ''string'')] (TPromise ''T''),
       Op ''$setValue'' [(''shared'', ''boolean''), (''key'', ''string''), (''value'', ''any'')] (TPromise ''any'')
     ]\<rparr>"

definition MainThreadTelemetryShape :: shape where
  "MainThreadTelemetryShape = \<lparr>
     shape_name = ''MainThreadTelemetryShape'',
     extends = [''IDisposable''],
     operations = [
       Op ''$publicLog'' [(''eventName'', ''string''), (''data?'', ''any'')] (Void)
     ]\<rparr>"

definition MainThreadWorkspaceShape :: shape where
  "MainThreadWorkspaceShape = \<lparr>
     shape_name = ''MainThreadWorkspaceShape'',
     extends = [''IDisposable''],
     operations = [
       Op ''$startSearch'' [(''include'', ''string | IRelativePattern''), (''exclude'', ''string | IRelativePattern''), (''maxResults'', ''number''), (''requestId'', ''number'')] (Thenable ''URI[]''),
       Op ''$cancelSearch'' [(''requestId'', ''number'')] (Thenable ''boolean''),
       Op ''$saveAll'' [(''includeUntitled?'', ''boolean'')] (Thenable ''boolean'')
     ]\<rparr>"

definition MainThreadFileSystemShape :: shape where
  "MainThreadFileSystemShape = \<lparr>
     shape_name = ''MainThreadFileSystemShape'',
     extends = [''IDisposable''],
     operations = [
       Op ''$registerFileSystemProvider'' [(''handle'', ''number''), (''scheme'', ''string'')] (Void),
       Op ''$unregisterFileSystemProvider'' [(''handle'', ''number'')] (Void),
       Op ''$onDidAddFileSystemRoot'' [(''root'', ''URI'')] (Void),
       Op ''$onFileSystemChange'' [(''handle'', ''number''), (''resource'', ''IFileChange[]'')] (Void),
       Op ''$reportFileChunk'' [(''handle'', ''number''), (''resource'', ''URI''), (''chunk'', ''number[] | null'')] (Void),
       Op ''$handleSearchProgress'' [(''handle'', ''number''), (''session'', ''number''), (''resource'', ''URI'')] (Void)
     ]\<rparr>"

definition MainThreadTaskShape :: shape where
  "MainThreadTaskShape = \<lparr>
     shape_name = ''MainThreadTaskShape'',
     extends = [''IDisposable''],
     operations = [
       Op ''$registerTaskProvider'' [(''handle'', ''number'')] (TPromise ''any''),
       Op ''$unregisterTaskProvider'' [(''handle'', ''number'')] (TPromise ''any'')
     ]\<rparr>"

definition MainThreadExtensionServiceShape :: shape where
  "MainThreadExtensionServiceShape = \<lparr>
     shape_name = ''MainThreadExtensionServiceShape'',
     extends = [''IDisposable''],
     operations = [
       Op ''$localShowMessage'' [(''severity'', ''Severity''), (''msg'', ''string'')] (Void),
       Op ''$onExtensionActivated'' [(''extensionId'', ''string''), (''startup'', ''boolean''), (''codeLoadingTime'', ''number''), (''activateCallTime'', ''number''), (''activateResolvedTime'', ''number'')] (Void),
       Op ''$onExtensionActivationFailed'' [(''extensionId'', ''string'')] (Void)
     ]\<rparr>"

definition MainThreadSCMShape :: shape where
  "MainThreadSCMShape = \<lparr>
     shape_name = ''MainThreadSCMShape'',
     extends = [''IDisposable''],
     operations = [
       Op ''$registerSourceControl'' [(''handle'', ''number''), (''id'', ''string''), (''label'', ''string''), (''rootUri'', ''string | undefined'')] (Void),
       Op ''$updateSourceControl'' [(''handle'', ''number''), (''features'', ''SCMProviderFeatures'')] (Void),
       Op ''$unregisterSourceControl'' [(''handle'', ''number'')] (Void),
       Op ''$registerGroup'' [(''sourceControlHandle'', ''number''), (''handle'', ''number''), (''id'', ''string''), (''label'', ''string'')] (Void),
       Op ''$updateGroup'' [(''sourceControlHandle'', ''number''), (''handle'', ''number''), (''features'', ''SCMGroupFeatures'')] (Void),
       Op ''$updateGroupLabel'' [(''sourceControlHandle'', ''number''), (''handle'', ''number''), (''label'', ''string'')] (Void),
       Op ''$unregisterGroup'' [(''sourceControlHandle'', ''number''), (''handle'', ''number'')] (Void),
       Op ''$spliceResourceStates'' [(''sourceControlHandle'', ''number''), (''splices'', ''SCMRawResourceSplices[]'')] (Void),
       Op ''$setInputBoxValue'' [(''sourceControlHandle'', ''number''), (''value'', ''string'')] (Void),
       Op ''$setInputBoxPlaceholder'' [(''sourceControlHandle'', ''number''), (''placeholder'', ''string'')] (Void)
     ]\<rparr>"

definition MainThreadDebugServiceShape :: shape where
  "MainThreadDebugServiceShape = \<lparr>
     shape_name = ''MainThreadDebugServiceShape'',
     extends = [''IDisposable''],
     operations = [
       Op ''$registerDebugConfigurationProvider'' [(''type'', ''string''), (''hasProvideMethod'', ''boolean''), (''hasResolveMethod'', ''boolean''), (''handle'', ''number'')] (TPromise ''any''),
       Op ''$unregisterDebugConfigurationProvider'' [(''handle'', ''number'')] (TPromise ''any''),
       Op ''$startDebugging'' [(''folder'', ''URI | undefined''), (''nameOrConfig'', ''string | vscode.DebugConfiguration'')] (TPromise ''boolean''),
       Op ''$customDebugAdapterRequest'' [(''id'', ''DebugSessionUUID''), (''command'', ''string''), (''args'', ''any'')] (TPromise ''any''),
       Op ''$appendDebugConsole'' [(''value'', ''string'')] (TPromise ''any'')
     ]\<rparr>"

definition MainThreadWindowShape :: shape where
  "MainThreadWindowShape = \<lparr>
     shape_name = ''MainThreadWindowShape'',
     extends = [''IDisposable''],
     operations = [
       Op ''$getWindowVisibility'' [] (TPromise ''boolean'')
     ]\<rparr>"

subsection \<open>The shapes of the extension host\<close>

definition ExtHostCommandsShape :: shape where
  "ExtHostCommandsShape = \<lparr>
     shape_name = ''ExtHostCommandsShape'',
     extends = [],
     operations = [
       Op ''$executeContributedCommand'' [(''id'', ''string''), (''...args'', ''any[]'')] (Thenable ''T''),
       Op ''$getContributedCommandHandlerDescriptions'' [] (TPromise ''{ [id: string]: string | ICommandHandlerDescription }'')
     ]\<rparr>"

definition ExtHostConfigurationShape :: shape where
  "ExtHostConfigurationShape = \<lparr>
     shape_name = ''ExtHostConfigurationShape'',
     extends = [],
     operations = [
       Op ''$acceptConfigurationChanged'' [(''data'', ''IConfigurationData''), (''eventData'', ''IWorkspaceConfigurationChangeEventData'')] (Void)
     ]\<rparr>"

definition ExtHostDiagnosticsShape :: shape where
  "ExtHostDiagnosticsShape = \<lparr>
     shape_name = ''ExtHostDiagnosticsShape'',
     extends = [],
     operations = []\<rparr>"

definition ExtHostDocumentContentProvidersShape :: shape where
  "ExtHostDocumentContentProvidersShape = \<lparr>
     shape_name = ''ExtHostDocumentContentProvidersShape'',
     extends = [],
     operations = [
       Op ''$provideTextDocumentContent'' [(''handle'', ''number''), (''uri'', ''URI'')] (TPromise ''string'')
     ]\<rparr>"

definition ExtHostDocumentsShape :: shape where
  "ExtHostDocumentsShape = \<lparr>
     shape_name = ''ExtHostDocumentsShape'',
     extends = [],
     operations = [
       Op ''$acceptModelModeChanged'' [(''strURL'', ''string''), (''oldModeId'', ''string''), (''newModeId'', ''string'')] (Void),
       Op ''$acceptModelSaved'' [(''strURL'', ''string'')] (Void),
       Op ''$acceptDirtyStateChanged'' [(''strURL'', ''string''), (''isDirty'', ''boolean'')] (Void),
       Op ''$acceptModelChanged'' [(''strURL'', ''string''), (''e'', ''IModelChangedEvent''), (''isDirty'', ''boolean'')] (Void)
     ]\<rparr>"

definition ExtHostDocumentSaveParticipantShape :: shape where
  "ExtHostDocumentSaveParticipantShape = \<lparr>
     shape_name = ''ExtHostDocumentSaveParticipantShape'',
     extends = [],
     operations = [
       Op ''$participateInSave'' [(''resource'', ''URI''), (''reason'', ''SaveReason'')] (TPromise ''boolean[]'')
     ]\<rparr>"

definition ExtHostEditorsShape :: shape where
  "ExtHostEditorsShape = \<lparr>
     shape_name = ''ExtHostEditorsShape'',
     extends = [],
     operations = [
       Op ''$acceptOptionsChanged'' [(''id'', ''string''), (''opts'', ''IResolvedTextEditorConfiguration'')] (Void),
       Op ''$acceptSelectionsChanged'' [(''id'', ''string''), (''event'', ''ISelectionChangeEvent'')] (Void),
       Op ''$acceptEditorPositionData'' [(''data'', ''ITextEditorPositionData'')] (Void)
     ]\<rparr>"

definition ExtHostDocumentsAndEditorsShape :: shape where
  "ExtHostDocumentsAndEditorsShape = \<lparr>
     shape_name = ''ExtHostDocumentsAndEditorsShape'',
     extends = [],
     operations = [
       Op ''$acceptDocumentsAndEditorsDelta'' [(''delta'', ''IDocumentsAndEditorsDelta'')] (Void)
     ]\<rparr>"

definition ExtHostTreeViewsShape :: shape where
  "ExtHostTreeViewsShape = \<lparr>
     shape_name = ''ExtHostTreeViewsShape'',
     extends = [],
     operations = [
       Op ''$getElements'' [(''treeViewId'', ''string'')] (TPromise ''ITreeItem[]''),
       Op ''$getChildren'' [(''treeViewId'', ''string''), (''treeItemHandle'', ''number'')] (TPromise ''ITreeItem[]'')
     ]\<rparr>"

definition ExtHostWorkspaceShape :: shape where
  "ExtHostWorkspaceShape = \<lparr>
     shape_name = ''ExtHostWorkspaceShape'',
     extends = [],
     operations = [
       Op ''$acceptWorkspaceData'' [(''workspace'', ''IWorkspaceData'')] (Void)
     ]\<rparr>"

definition ExtHostFileSystemShape :: shape where
  "ExtHostFileSystemShape = \<lparr>
     shape_name = ''ExtHostFileSystemShape'',
     extends = [],
     operations = [
       Op ''$utimes'' [(''handle'', ''number''), (''resource'', ''URI''), (''mtime'', ''number''), (''atime'', ''number'')] (TPromise ''IStat''),
       Op ''$stat'' [(''handle'', ''number''), (''resource'', ''URI'')] (TPromise ''IStat''),
       Op ''$read'' [(''handle'', ''number''), (''offset'', ''number''), (''count'', ''number''), (''resource'', ''URI'')] (TPromise ''number''),
       Op ''$write'' [(''handle'', ''number''), (''resource'', ''URI''), (''content'', ''number[]'')] (TPromise ''void''),
       Op ''$unlink'' [(''handle'', ''number''), (''resource'', ''URI'')] (TPromise ''void''),
       Op ''$move'' [(''handle'', ''number''), (''resource'', ''URI''), (''target'', ''URI'')] (TPromise ''IStat''),
       Op ''$mkdir'' [(''handle'', ''number''), (''resource'', ''URI'')] (TPromise ''IStat''),
       Op ''$readdir'' [(''handle'', ''number''), (''resource'', ''URI'')] (TPromise ''[URI, IStat][]''),
       Op ''$rmdir'' [(''handle'', ''number''), (''resource'', ''URI'')] (TPromise ''void''),
       Op ''$fileFiles'' [(''handle'', ''number''), (''session'', ''number''), (''query'', ''string'')] (TPromise ''void'')
     ]\<rparr>"

definition ExtHostExtensionServiceShape :: shape where
  "ExtHostExtensionServiceShape = \<lparr>
     shape_name = ''ExtHostExtensionServiceShape'',
     extends = [],
     operations = [
       Op ''$activateByEvent'' [(''activationEvent'', ''string'')] (TPromise ''void'')
     ]\<rparr>"

definition ExtHostFileSystemEventServiceShape :: shape where
  "ExtHostFileSystemEventServiceShape = \<lparr>
     shape_name = ''ExtHostFileSystemEventServiceShape'',
     extends = [],
     operations = [
       Op ''$onFileEvent'' [(''events'', ''FileSystemEvents'')] (Void)
     ]\<rparr>"

definition ExtHostHeapServiceShape :: shape where
  "ExtHostHeapServiceShape = \<lparr>
     shape_name = ''ExtHostHeapServiceShape'',
     extends = [],
     operations = [
       Op ''$onGarbageCollection'' [(''ids'', ''number[]'')] (Void)
     ]\<rparr>"

definition ExtHostLanguageFeaturesShape :: shape where
  "ExtHostLanguageFeaturesShape = \<lparr>
     shape_name = ''ExtHostLanguageFeaturesShape'',
     extends = [],
     operations = [
       Op ''$provideDocumentSymbols'' [(''handle'', ''number''), (''resource'', ''URI'')] (TPromise ''modes.SymbolInformation[]''),
       Op ''$provideCodeLenses'' [(''handle'', ''number''), (''resource'', ''URI'')] (TPromise ''modes.ICodeLensSymbol[]''),
       Op ''$resolveCodeLens'' [(''handle'', ''number''), (''resource'', ''URI''), (''symbol'', ''modes.ICodeLensSymbol'')] (TPromise ''modes.ICodeLensSymbol''),
       Op ''$provideDefinition'' [(''handle'', ''number''), (''resource'', ''URI''), (''position'', ''IPosition'')] (TPromise ''modes.Definition''),
       Op ''$provideImplementation'' [(''handle'', ''number''), (''resource'', ''URI''), (''position'', ''IPosition'')] (TPromise ''modes.Definition''),
       Op ''$provideTypeDefinition'' [(''handle'', ''number''), (''resource'', ''URI''), (''position'', ''IPosition'')] (TPromise ''modes.Definition''),
       Op ''$provideHover'' [(''handle'', ''number''), (''resource'', ''URI''), (''position'', ''IPosition'')] (TPromise ''modes.Hover''),
       Op ''$provideDocumentHighlights'' [(''handle'', ''number''), (''resource'', ''URI''), (''position'', ''IPosition'')] (TPromise ''modes.DocumentHighlight[]''),
       Op ''$provideReferences'' [(''handle'', ''number''), (''resource'', ''URI''), (''position'', ''IPosition''), (''context'', ''modes.ReferenceContext'')] (TPromise ''modes.Location[]''),
       Op ''$provideCodeActions'' [(''handle'', ''number''), (''resource'', ''URI''), (''range'', ''IRange'')] (TPromise ''(modes.Command | modes.CodeAction)[]''),
       Op ''$provideDocumentFormattingEdits'' [(''handle'', ''number''), (''resource'', ''URI''), (''options'', ''modes.FormattingOptions'')] (TPromise ''editorCommon.ISingleEditOperation[]''),
       Op ''$provideDocumentRangeFormattingEdits'' [(''handle'', ''number''), (''resource'', ''URI''), (''range'', ''IRange''), (''options'', ''modes.FormattingOptions'')] (TPromise ''editorCommon.ISingleEditOperation[]''),
       Op ''$provideOnTypeFormattingEdits'' [(''handle'', ''number''), (''resource'', ''URI''), (''position'', ''IPosition''), (''ch'', ''string''), (''options'', ''modes.FormattingOptions'')] (TPromise ''editorCommon.ISingleEditOperation[]''),
       Op ''$provideWorkspaceSymbols'' [(''handle'', ''number''), (''search'', ''string'')] (TPromise ''IWorkspaceSymbols''),
       Op ''$resolveWorkspaceSymbol'' [(''handle'', ''number''), (''symbol'', ''modes.SymbolInformation'')] (TPromise ''IWorkspaceSymbol''),
       Op ''$releaseWorkspaceSymbols'' [(''handle'', ''number''), (''id'', ''number'')] (Void),
       Op ''$provideRenameEdits'' [(''handle'', ''number''), (''resource'', ''URI''), (''position'', ''IPosition''), (''newName'', ''string'')] (TPromise ''modes.WorkspaceEdit''),
       Op ''$provideCompletionItems'' [(''handle'', ''number''), (''resource'', ''URI''), (''position'', ''IPosition''), (''context'', ''modes.SuggestContext'')] (TPromise ''IExtHostSuggestResult''),
       Op ''$resolveCompletionItem'' [(''handle'', ''number''), (''resource'', ''URI''), (''position'', ''IPosition''), (''suggestion'', ''modes.ISuggestion'')] (TPromise ''modes.ISuggestion''),
       Op ''$releaseCompletionItems'' [(''handle'', ''number''), (''id'', ''number'')] (Void),
       Op ''$provideSignatureHelp'' [(''handle'', ''number''), (''resource'', ''URI''), (''position'', ''IPosition'')] (TPromise ''modes.SignatureHelp''),
       Op ''$provideDocumentLinks'' [(''handle'', ''number''), (''resource'', ''URI'')] (TPromise ''modes.ILink[]''),
       Op ''$resolveDocumentLink'' [(''handle'', ''number''), (''link'', ''modes.ILink'')] (TPromise ''modes.ILink''),
       Op ''$provideDocumentColors'' [(''handle'', ''number''), (''resource'', ''URI'')] (TPromise ''IRawColorInfo[]''),
       Op ''$provideColorPresentations'' [(''handle'', ''number''), (''resource'', ''URI''), (''colorInfo'', ''IRawColorInfo'')] (TPromise ''modes.IColorPresentation[]'')
     ]\<rparr>"

definition ExtHostQuickOpenShape :: shape where
  "ExtHostQuickOpenShape = \<lparr>
     shape_name = ''ExtHostQuickOpenShape'',
     extends = [],
     operations = [
       Op ''$onItemSelected'' [(''handle'', ''number'')] (Void),
       Op ''$validateInput'' [(''input'', ''string'')] (TPromise ''string'')
     ]\<rparr>"

definition ExtHostTerminalServiceShape :: shape where
  "ExtHostTerminalServiceShape = \<lparr>
     shape_name = ''ExtHostTerminalServiceShape'',
     extends = [],
     operations = [
       Op ''$acceptTerminalClosed'' [(''id'', ''number'')] (Void),
       Op ''$acceptTerminalProcessId'' [(''id'', ''number''), (''processId'', ''number'')] (Void)
     ]\<rparr>"

definition ExtHostSCMShape :: shape where
  "ExtHostSCMShape = \<lparr>
     shape_name = ''ExtHostSCMShape'',
     extends = [],
     operations = [
       Op ''$provideOriginalResource'' [(''sourceControlHandle'', ''number''), (''uri'', ''URI'')] (TPromise ''URI''),
       Op ''$onInputBoxValueChange'' [(''sourceControlHandle'', ''number''), (''value'', ''string'')] (TPromise ''void''),
       Op ''$executeResourceCommand'' [(''sourceControlHandle'', ''number''), (''groupHandle'', ''number''), (''handle'', ''number'')] (TPromise ''void'')
     ]\<rparr>"

definition ExtHostTaskShape :: shape where
  "ExtHostTaskShape = \<lparr>
     shape_name = ''ExtHostTaskShape'',
     extends = [],
     operations = [
       Op ''$provideTasks'' [(''handle'', ''number'')] (TPromise ''TaskSet'')
     ]\<rparr>"

definition ExtHostDebugServiceShape :: shape where
  "ExtHostDebugServiceShape = \<lparr>
     shape_name = ''ExtHostDebugServiceShape'',
     extends = [],
     operations = [
       Op ''$resolveDebugConfiguration'' [(''handle'', ''number''), (''folder'', ''URI | undefined''), (''debugConfiguration'', ''any'')] (TPromise ''any''),
       Op ''$provideDebugConfigurations'' [(''handle'', ''number''), (''folder'', ''URI | undefined'')] (TPromise ''any[]''),
       Op ''$acceptDebugSessionStarted'' [(''id'', ''DebugSessionUUID''), (''type'', ''string''), (''name'', ''string'')] (Void),
       Op ''$acceptDebugSessionTerminated'' [(''id'', ''DebugSessionUUID''), (''type'', ''string''), (''name'', ''string'')] (Void),
       Op ''$acceptDebugSessionActiveChanged'' [(''id'', ''DebugSessionUUID | undefined''), (''type?'', ''string''), (''name?'', ''string'')] (Void),
       Op ''$acceptDebugSessionCustomEvent'' [(''id'', ''DebugSessionUUID''), (''type'', ''string''), (''name'', ''string''), (''event'', ''any'')] (Void)
     ]\<rparr>"

definition ExtHostDecorationsShape :: shape where
  "ExtHostDecorationsShape = \<lparr>
     shape_name = ''ExtHostDecorationsShape'',
     extends = [],
     operations = [
       Op ''$providerDecorations'' [(''handle'', ''number''), (''uri'', ''URI'')] (TPromise ''DecorationData'')
     ]\<rparr>"

definition ExtHostWindowShape :: shape where
  "ExtHostWindowShape = \<lparr>
     shape_name = ''ExtHostWindowShape'',
     extends = [],
     operations = [
       Op ''$onDidChangeWindowFocus'' [(''value'', ''boolean'')] (Void)
     ]\<rparr>"

subsection \<open>The context tables\<close>

definition MainContext :: "context_entry list" where
  "MainContext = [
     Entry ''MainThreadCommands'' MainThreadCommandsShape (createMainId ''MainThreadCommands''),
     Entry ''MainThreadConfiguration'' MainThreadConfigurationShape (createMainId ''MainThreadConfiguration''),
     Entry ''MainThreadDebugService'' MainThreadDebugServiceShape (createMainId ''MainThreadDebugService''),
     Entry ''MainThreadDecorations'' MainThreadDecorationsShape (createMainId ''MainThreadDecorations''),
     Entry ''MainThreadDiagnostics'' MainThreadDiagnosticsShape (createMainId ''MainThreadDiagnostics''),
     Entry ''MainThreadDialogs'' MainThreadDiaglogsShape (createMainId ''MainThreadDiaglogs''),
     Entry ''MainThreadDocuments'' MainThreadDocumentsShape (createMainId ''MainThreadDocuments''),
     Entry ''MainThreadDocumentContentProviders'' MainThreadDocumentContentProvidersShape (createMainId ''MainThreadDocumentContentProviders''),
     Entry ''MainThreadEditors'' MainThreadEditorsShape (createMainId ''MainThreadEditors''),
     Entry ''MainThreadErrors'' MainThreadErrorsShape (createMainId ''MainThreadErrors''),
     Entry ''MainThreadTreeViews'' MainThreadTreeViewsShape (createMainId ''MainThreadTreeViews''),
     Entry ''MainThreadLanguageFeatures'' MainThreadLanguageFeaturesShape (createMainId ''MainThreadLanguageFeatures''),
     Entry ''MainThreadLanguages'' MainThreadLanguagesShape (createMainId ''MainThreadLanguages''),
     Entry ''MainThreadMessageService'' MainThreadMessageServiceShape (createMainId ''MainThreadMessageService''),
     Entry ''MainThreadOutputService'' MainThreadOutputServiceShape (createMainId ''MainThreadOutputService''),
     Entry ''MainThreadProgress'' MainThreadProgressShape (createMainId ''MainThreadProgress''),
     Entry ''MainThreadQuickOpen'' MainThreadQuickOpenShape (createMainId ''MainThreadQuickOpen''),
     Entry ''MainThreadStatusBar'' MainThreadStatusBarShape (createMainId ''MainThreadStatusBar''),
     Entry ''MainThreadStorage'' MainThreadStorageShape (createMainId ''MainThreadStorage''),
     Entry ''MainThreadTelemetry'' MainThreadTelemetryShape (createMainId ''MainThreadTelemetry''),
     Entry ''MainThreadTerminalService'' MainThreadTerminalServiceShape (createMainId ''MainThreadTerminalService''),
     Entry ''MainThreadWorkspace'' MainThreadWorkspaceShape (createMainId ''MainThreadWorkspace''),
     Entry ''MainThreadFileSystem'' MainThreadFileSystemShape (createMainId ''MainThreadFileSystem''),
     Entry ''MainThreadExtensionService'' MainThreadExtensionServiceShape (createMainId ''MainThreadExtensionService''),
     Entry ''MainThreadSCM'' MainThreadSCMShape (createMainId ''MainThreadSCM''),
     Entry ''MainThreadTask'' MainThreadTaskShape (createMainId ''MainThreadTask''),
     Entry ''MainThreadWindow'' MainThreadWindowShape (createMainId ''MainThreadWindow'')
   ]"

definition ExtHostContext :: "context_entry list" where
  "ExtHostContext = [
     Entry ''ExtHostCommands'' ExtHostCommandsShape (createExtId ''ExtHostCommands''),
     Entry ''ExtHostConfiguration'' ExtHostConfigurationShape (createExtId ''ExtHostConfiguration''),
     Entry ''ExtHostDiagnostics'' ExtHostDiagnosticsShape (createExtId ''ExtHostDiagnostics''),
     Entry ''ExtHostDebugService'' ExtHostDebugServiceShape (createExtId ''ExtHostDebugService''),
     Entry ''ExtHostDecorations'' ExtHostDecorationsShape (createExtId ''ExtHostDecorations''),
     Entry ''ExtHostDocumentsAndEditors'' ExtHostDocumentsAndEditorsShape (createExtId ''ExtHostDocumentsAndEditors''),
     Entry ''ExtHostDocuments'' ExtHostDocumentsShape (createExtId ''ExtHostDocuments''),
     Entry ''ExtHostDocumentContentProviders'' ExtHostDocumentContentProvidersShape (createExtId ''ExtHostDocumentContentProviders''),
     Entry ''ExtHostDocumentSaveParticipant'' ExtHostDocumentSaveParticipantShape (createExtId ''ExtHostDocumentSaveParticipant''),
     Entry ''ExtHostEditors'' ExtHostEditorsShape (createExtId ''ExtHostEditors''),
     Entry ''ExtHostTreeViews'' ExtHostTreeViewsShape (createExtId ''ExtHostTreeViews''),
     Entry ''ExtHostFileSystem'' ExtHostFileSystemShape (createExtId ''ExtHostFileSystem''),
     Entry ''ExtHostFileSystemEventService'' ExtHostFileSystemEventServiceShape (createExtId ''ExtHostFileSystemEventService''),
     Entry ''ExtHostHeapService'' ExtHostHeapServiceShape (createExtId ''ExtHostHeapMonitor''),
     Entry ''ExtHostLanguageFeatures'' ExtHostLanguageFeaturesShape (createExtId ''ExtHostLanguageFeatures''),
     Entry ''ExtHostQuickOpen'' ExtHostQuickOpenShape (createExtId ''ExtHostQuickOpen''),
     Entry ''ExtHostExtensionService'' ExtHostExtensionServiceShape (createExtId ''ExtHostExtensionService''),
     Entry ''ExtHostTerminalService'' ExtHostTerminalServiceShape (createExtId ''ExtHostTerminalService''),
     Entry ''ExtHostSCM'' ExtHostSCMShape (createExtId ''ExtHostSCM''),
     Entry ''ExtHostTask'' ExtHostTaskShape (createExtId ''ExtHostTask''),
     Entry ''ExtHostWorkspace'' ExtHostWorkspaceShape (createExtId ''ExtHostWorkspace''),
     Entry ''ExtHostWindow'' ExtHostWindowShape (createExtId ''ExtHostWindow'')
   ]"


subsection \<open>Reading the tables\<close>

definition registered_names :: "context_entry list \<Rightarrow> string list" where
  "registered_names ctx = map (\<lambda>e. name (entry_id e)) ctx"

text \<open>Every operation of the protocol: the operations of the shapes of both tables.\<close>

definition protocol_operations :: "operation list" where
  "protocol_operations = concat (map (\<lambda>e. operations (entry_shape e)) (MainContext @ ExtHostContext))"

definition disposable :: "shape \<Rightarrow> bool" where
  "disposable sh = (''IDisposable'' \<in> set (extends sh))"

text \<open>An operation that disposes is recognised by its name (\<open>dispose\<close>, \<open>$dispose\<close>, \<open>...Dispose...\<close>).\<close>

definition disposal_operation :: "operation \<Rightarrow> bool" where
  "disposal_operation p = sublist ''ispose'' (op_name p)"

text \<open>
  The operations named in accept or notify style: the name starts with \<open>$accept\<close>, or
  with \<open>$on\<close> (the notifications of an event, as \<open>$onGarbageCollection\<close>) or \<open>$notify\<close>.
\<close>

definition accept_style :: "operation \<Rightarrow> bool" where
  "accept_style p = prefix ''$accept'' (op_name p)"

definition notify_style :: "operation \<Rightarrow> bool" where
  "notify_style p = (prefix ''$on'' (op_name p) \<or> prefix ''$notify'' (op_name p))"

definition fire_and_forget :: "operation \<Rightarrow> bool" where
  "fire_and_forget p = (accept_style p \<or> notify_style p)"

text \<open>\<open>$onInputBoxValueChange\<close> of \<open>ExtHostSCMShape\<close>, as declared.\<close>

definition onInputBoxValueChange :: operation where
  "onInputBoxValueChange =
     Op ''$onInputBoxValueChange'' [(''sourceControlHandle'', ''number''), (''value'', ''string'')]
        (TPromise ''void'')"

text \<open>An operation of garbage collection is recognised by its name.\<close>

definition gc_related :: "operation \<Rightarrow> bool" where
  "gc_related p = (sublist ''Garbage'' (op_name p) \<or> sublist ''Collect'' (op_name p)
                   \<or> sublist ''GC'' (op_name p))"

subsection \<open>JavaScript objects\<close>

text \<open>
  \<open>ObjectIdentifier.mixin\<close> and \<open>IdObject.mixin\<close> write a property into an object
  they are handed. An object is modelled by its own data properties, in the order of
  their creation, each with the three attributes of ECMAScript, and by its
  \<open>[[Extensible]]\<close> flag. Accessor properties and the prototype chain are not modelled:
  the objects stamped here are the plain values that cross the process boundary.
  Numbers are the integers (identities are counters and handles).
\<close>

datatype jsvalue = JSUndefined | JSNull | JSBoolean bool | JSNumber int | JSString string

record property =
  prop_value :: jsvalue
  writable :: bool
  enumerable :: bool
  configurable :: bool

record jsobject =
  properties :: "(string \<times> property) list"
  extensible :: bool

datatype js_error = TypeError

text \<open>A property descriptor as passed to \<open>Object.defineProperty\<close>: every field is optional.\<close>

record descriptor =
  d_value :: "jsvalue option"
  d_writable :: "bool option"
  d_enumerable :: "bool option"
  d_configurable :: "bool option"

definition GetOwnProperty :: "jsobject \<Rightarrow> string \<Rightarrow> property option" where
  "GetOwnProperty obj k = map_of (properties obj) k"

text \<open>\<open>obj[k]\<close>: the value of the property, \<open>undefined\<close> when there is none.\<close>

definition Get :: "jsobject \<Rightarrow> string \<Rightarrow> jsvalue" where
  "Get obj k = (case GetOwnProperty obj k of None \<Rightarrow> JSUndefined | Some p \<Rightarrow> prop_value p)"

text \<open>\<open>Object.keys(obj)\<close>, \<open>for ... in\<close> and \<open>JSON.stringify\<close> see the enumerable properties.\<close>

definition Object_keys :: "jsobject \<Rightarrow> string list" where
  "Object_keys obj = map fst (filter (\<lambda>kp. enumerable (snd kp)) (properties obj))"

definition or_else :: "'a option \<Rightarrow> 'a \<Rightarrow> 'a" where
  "or_else x d = (case x of None \<Rightarrow> d | Some v \<Rightarrow> v)"

text \<open>
  \<open>Object.defineProperty(obj, k, desc)\<close> for a data descriptor (ECMAScript,
  ValidateAndApplyPropertyDescriptor). A new property needs an extensible object and takes
  \<open>false\<close> for every attribute the descriptor leaves out. An existing property that is
  not configurable rejects a change of its attributes, and of its value unless it is
  writable. A rejected definition throws \<open>TypeError\<close>.
\<close>

definition Object_defineProperty :: "jsobject \<Rightarrow> string \<Rightarrow> descriptor \<Rightarrow> js_error + jsobject" where
  "Object_defineProperty obj k desc =
     (case GetOwnProperty obj k of
        None \<Rightarrow>
          if \<not> extensible obj then Inl TypeError
          else Inr (obj\<lparr>properties := properties obj @
                 [(k, \<lparr>prop_value = or_else (d_value desc) JSUndefined,
                       writable = or_else (d_writable desc) False,
                       enumerable = or_else (d_enumerable desc) False,
                       configurable = or_else (d_configurable desc) False\<rparr>)]\<rparr>)
      | Some p \<Rightarrow>
          if \<not> configurable p \<and>
             (d_configurable desc = Some True
              \<or> (d_enumerable desc \<noteq> None \<and> d_enumerable desc \<noteq> Some (enumerable p))
              \<or> (\<not> writable p \<and>
                  (d_writable desc = Some True
                   \<or> (d_value desc \<noteq> None \<and> d_value desc \<noteq> Some (prop_value p)))))
          then Inl TypeError
          else Inr (obj\<lparr>properties := AList.update k
                 \<lparr>prop_value = or_else (d_value desc) (prop_value p),
                  writable = or_else (d_writable desc) (writable p),
                  enumerable = or_else (d_enumerable desc) (enumerable p),
                  configurable = or_else (d_configurable desc) (configurable p)\<rparr>
                 (properties obj)\<rparr>))"

text \<open>
  \<open>obj[k] = v\<close> in strict mode (the file starts with \<open>'use strict'\<close>): an existing
  property must be writable, a new one needs an extensible object and is created writable,
  enumerable and configurable; otherwise the assignment throws \<open>TypeError\<close>.
\<close>

definition Set_strict :: "jsobject \<Rightarrow> string \<Rightarrow> jsvalue \<Rightarrow> js_error + jsobject" where
  "Set_strict obj k v =
     (case GetOwnProperty obj k of
        None \<Rightarrow>
          if \<not> extensible obj then Inl TypeError
          else Inr (obj\<lparr>properties := properties obj @
                 [(k, \<lparr>prop_value = v, writable = True, enumerable = True, configurable = True\<rparr>)]\<rparr>)
      | Some p \<Rightarrow>
          if \<not> writable p then Inl TypeError
          else Inr (obj\<lparr>properties := AList.update k (p\<lparr>prop_value := v\<rparr>) (properties obj)\<rparr>))"

subsection \<open>namespace ObjectIdentifier\<close>

definition ObjectIdentifier_name :: string where
  "ObjectIdentifier_name = ''$ident''"

text \<open>
  \<^verbatim>\<open>Object.defineProperty(obj, name, { value: id, enumerable: true }); return obj;\<close>
\<close>

definition ObjectIdentifier_mixin :: "jsobject \<Rightarrow> int \<Rightarrow> js_error + jsobject" where
  "ObjectIdentifier_mixin obj ident =
     Object_defineProperty obj ObjectIdentifier_name
       \<lparr>d_value = Some (JSNumber ident), d_writable = None,
        d_enumerable = Some True, d_configurable = None\<rparr>"

definition ObjectIdentifier_of :: "jsobject \<Rightarrow> jsvalue" where
  "ObjectIdentifier_of obj = Get obj ObjectIdentifier_name"

subsection \<open>namespace IdObject\<close>

text \<open>
  \<^verbatim>\<open>let n = 0;\<close> is the state of the module: one counter, created when the module is
  loaded. The counter is a JavaScript number, an IEEE double, and \<open>n++\<close> adds 1 in double
  arithmetic. A double holds every integer up to \<open>2^53\<close>; above, up to \<open>2^54\<close>, only the
  even ones, and beyond only multiples of 4 or more. So below \<open>2^53\<close> the sum is exact.
  From \<open>2^53\<close> to \<open>2^54\<close> the sum \<open>n + 1\<close> lies halfway between two doubles and rounds to
  the one with the even significand: to \<open>n\<close> when \<open>n\<close> is a multiple of 4, to \<open>n + 2\<close>
  otherwise. From \<open>2^54\<close> on it rounds back to \<open>n\<close>. A counter that starts at 0 therefore
  counts to \<open>2^53\<close> and stays there.
\<close>

definition js_exact_limit :: nat where
  "js_exact_limit = 2 ^ 53"

definition js_increment :: "nat \<Rightarrow> nat" where
  "js_increment n =
     (if n < js_exact_limit then n + 1
      else if n < 2 * js_exact_limit \<and> n mod 4 = 2 then n + 2
      else n)"

text \<open>
  \<open>mixin\<close> takes the counter and returns the new one.
  \<^verbatim>\<open>(<any>object)._id = n++; return <any>object;\<close> increments the counter before the
  assignment is carried out, so the counter advances also when the assignment throws.
\<close>

definition IdObject_n_init :: nat where
  "IdObject_n_init = 0"

definition IdObject_mixin :: "jsobject \<Rightarrow> nat \<Rightarrow> (js_error + jsobject) \<times> nat" where
  "IdObject_mixin object n = (Set_strict object ''_id'' (JSNumber (int n)), js_increment n)"

text \<open>
  A run of the process: the objects handed to \<open>IdObject.mixin\<close>, one call after the other,
  what each call returns, and the counter after the last call.
\<close>

fun mixin_calls :: "jsobject list \<Rightarrow> nat \<Rightarrow> (js_error + jsobject) list" where
  "mixin_calls [] n = []"
| "mixin_calls (object # objects) n =
     (case IdObject_mixin object n of (r, n') \<Rightarrow> r # mixin_calls objects n')"

fun counter_after :: "jsobject list \<Rightarrow> nat \<Rightarrow> nat" where
  "counter_after [] n = n"
| "counter_after (object # objects) n =
     (case IdObject_mixin object n of (r, n') \<Rightarrow> counter_after objects n')"

subsection \<open>Documents and editors: the delta\<close>

text \<open>
  The descriptors and the delta are the interfaces of the source. Types imported from other
  modules are represented by what they carry: a \<open>URI\<close> by its string, the enumerations
  (\<open>EditorPosition\<close>, \<open>TextEditorCursorStyle\<close>, \<open>TextEditorLineNumbersStyle\<close>) by their
  number, a selection by its four coordinates. An optional field (\<open>?\<close>) is an \<open>option\<close>.
  The field \<open>id\<close> of \<open>ITextEditorAddData\<close> is named \<open>editor_id\<close> here.
\<close>

type_synonym URI = string
type_synonym EditorPosition = nat
type_synonym TextEditorCursorStyle = nat
type_synonym TextEditorLineNumbersStyle = nat
type_synonym ISelection = "int \<times> int \<times> int \<times> int"

record IResolvedTextEditorConfiguration =
  tabSize :: int
  insertSpaces :: bool
  cursorStyle :: TextEditorCursorStyle
  lineNumbers :: TextEditorLineNumbersStyle


record ITextEditorAddData =
  editor_id :: string
  document :: URI
  options :: IResolvedTextEditorConfiguration
  selections :: "ISelection list"
  editorPosition :: EditorPosition






text \<open>The error taxonomy of the spec (section 7).\<close>

datatype protocol_error =
  UnboundCapability | DuplicateCapability | StaleHandle | CapabilityDisposed | ProtocolViolation






subsection \<open>Sample values\<close>

definition suggestion_item :: jsobject where
  "suggestion_item =
     \<lparr>properties =
        [(''label'', \<lparr>prop_value = JSString ''foo'', writable = True, enumerable = True,
                      configurable = True\<rparr>)],
      extensible = True\<rparr>"

definition symbol_item :: jsobject where
  "symbol_item =
     \<lparr>properties =
        [(''name'', \<lparr>prop_value = JSString ''main'', writable = True, enumerable = True,
                     configurable = True\<rparr>),
         (''kind'', \<lparr>prop_value = JSNumber 11, writable = True, enumerable = True,
                     configurable = True\<rparr>)],
      extensible = True\<rparr>"

text \<open>A frozen object (\<open>Object.freeze\<close>): nothing can be added or written.\<close>

definition frozen_item :: jsobject where
  "frozen_item =
     \<lparr>properties =
        [(''label'', \<lparr>prop_value = JSString ''bar'', writable = False, enumerable = True,
                      configurable = False\<rparr>)],
      extensible = False\<rparr>"

text \<open>What \<open>object._id = v\<close> makes of an object that has no \<open>_id\<close> yet.\<close>

definition with_id :: "jsobject \<Rightarrow> int \<Rightarrow> jsobject" where
  "with_id obj v =
     obj\<lparr>properties := properties obj @
        [(''_id'', \<lparr>prop_value = JSNumber v, writable = True, enumerable = True,
                    configurable = True\<rparr>)]\<rparr>"

text \<open>What \<open>ObjectIdentifier.mixin\<close> makes of an object that has no \<open>$ident\<close> yet.\<close>

definition with_ident :: "jsobject \<Rightarrow> int \<Rightarrow> jsobject" where
  "with_ident obj v =
     obj\<lparr>properties := properties obj @
        [(''$ident'', \<lparr>prop_value = JSNumber v, writable = False, enumerable = True,
                       configurable = False\<rparr>)]\<rparr>"










section \<open>Properties\<close>

subsection \<open>Auxiliary facts\<close>

lemma keys_update_other:
  "filter (\<lambda>x. x \<noteq> k) (map fst (filter (\<lambda>kp. enumerable (snd kp)) (AList.update k p ps)))
   = filter (\<lambda>x. x \<noteq> k) (map fst (filter (\<lambda>kp. enumerable (snd kp)) ps))"
  by (induction ps) auto

lemma keys_update_member:
  "enumerable p \<Longrightarrow> k \<in> set (map fst (filter (\<lambda>kp. enumerable (snd kp)) (AList.update k p ps)))"
  by (induction ps) (auto simp: image_iff)

lemma defineProperty_other:
  assumes "Object_defineProperty obj k desc = Inr obj'" and "k' \<noteq> k"
  shows "GetOwnProperty obj' k' = GetOwnProperty obj k'"
  using assms
  by (auto simp: Object_defineProperty_def GetOwnProperty_def map_add_def update_conv'
           split: option.splits if_splits)

lemma defineProperty_extensible:
  assumes "Object_defineProperty obj k desc = Inr obj'"
  shows "extensible obj' = extensible obj"
  using assms
  by (auto simp: Object_defineProperty_def split: option.splits if_splits)

lemma defineProperty_keys_other:
  assumes "Object_defineProperty obj k desc = Inr obj'"
  shows "filter (\<lambda>x. x \<noteq> k) (Object_keys obj') = filter (\<lambda>x. x \<noteq> k) (Object_keys obj)"
  using assms
  by (auto simp: Object_defineProperty_def Object_keys_def keys_update_other
           split: option.splits if_splits)

lemma mixin_ident_property:
  assumes "ObjectIdentifier_mixin obj ident = Inr obj'"
  shows "\<exists>p. GetOwnProperty obj' ObjectIdentifier_name = Some p \<and> prop_value p = JSNumber ident
             \<and> enumerable p"
  using assms
  by (auto simp: ObjectIdentifier_mixin_def Object_defineProperty_def GetOwnProperty_def
        map_add_def update_conv' or_else_def
           split: option.splits if_splits)

lemma mixin_ident_key:
  assumes "ObjectIdentifier_mixin obj ident = Inr obj'"
  shows "ObjectIdentifier_name \<in> set (Object_keys obj')"
  using assms
  by (auto simp: ObjectIdentifier_mixin_def Object_defineProperty_def Object_keys_def
        or_else_def keys_update_member simp del: set_map
           split: option.splits if_splits)

lemma Set_strict_Get:
  assumes "Set_strict obj k v = Inr obj'"
  shows "Get obj' k = v"
  using assms
  by (auto simp: Set_strict_def Get_def GetOwnProperty_def map_add_def update_conv'
           split: option.splits if_splits)

lemma js_increment_below:
  "n < js_exact_limit \<Longrightarrow> js_increment n = n + 1"
  by (simp add: js_increment_def)

lemma js_increment_limit:
  "js_increment js_exact_limit = js_exact_limit"
  by (simp add: js_increment_def js_exact_limit_def)

lemma IdObject_mixin_id:
  assumes "IdObject_mixin object n = (Inr object', n')"
  shows "Get object' ''_id'' = JSNumber (int n) \<and> n' = js_increment n"
  using assms Set_strict_Get [of object "''_id''" "JSNumber (int n)" object']
  by (auto simp: IdObject_mixin_def)

lemma mixin_calls_nth:
  assumes "i < length objects" and "n + i \<le> js_exact_limit"
    and "mixin_calls objects n ! i = Inr object'"
  shows "Get object' ''_id'' = JSNumber (int (n + i))"
  using assms
proof (induction objects arbitrary: n i)
  case Nil
  then show ?case by simp
next
  case (Cons x xs)
  show ?case
  proof (cases i)
    case 0
    with Cons.prems have "IdObject_mixin x n = (Inr object', js_increment n)"
      by (auto simp: IdObject_mixin_def)
    with 0 show ?thesis using IdObject_mixin_id by fastforce
  next
    case (Suc j)
    with Cons.prems have lt: "n < js_exact_limit" by simp
    from Suc Cons.prems have b: "n + 1 + j \<le> js_exact_limit" by simp
    from Suc Cons.prems lt have "j < length xs" and "mixin_calls xs (n + 1) ! j = Inr object'"
      by (auto simp: IdObject_mixin_def js_increment_below)
    from Cons.IH [OF this(1) b this(2)]
    have "Get object' ''_id'' = JSNumber (int (n + 1 + j))" .
    with Suc show ?thesis by simp
  qed
qed

lemma counter_after_exact:
  assumes "n + length objects \<le> js_exact_limit"
  shows "counter_after objects n = n + length objects"
  using assms
proof (induction objects arbitrary: n)
  case Nil
  then show ?case by simp
next
  case (Cons x xs)
  then have lt: "n < js_exact_limit" and b: "n + 1 + length xs \<le> js_exact_limit"
    by simp_all
  from Cons.IH [OF b] lt show ?case
    by (simp add: IdObject_mixin_def js_increment_below)
qed

lemma mixin_fresh:
  assumes "GetOwnProperty obj ''_id'' = None" and "extensible obj"
  shows "IdObject_mixin obj n = (Inr (with_id obj (int n)), js_increment n)"
  using assms by (simp add: IdObject_mixin_def Set_strict_def with_id_def)

lemma suggestion_item_fresh:
  "GetOwnProperty suggestion_item ''_id'' = None" "extensible suggestion_item"
  by (simp_all add: suggestion_item_def GetOwnProperty_def)

lemma symbol_item_fresh:
  "GetOwnProperty symbol_item ''_id'' = None" "extensible symbol_item"
  by (simp_all add: symbol_item_def GetOwnProperty_def)

lemma frozen_item_throws:
  "IdObject_mixin frozen_item n = (Inl TypeError, js_increment n)"
  by (simp add: IdObject_mixin_def Set_strict_def frozen_item_def GetOwnProperty_def)












subsection \<open>Handle allocation\<close>

text \<open>
  C1, as the claim states it, fails: the counter is a double. After \<open>2^53\<close> calls it has
  the value \<open>2^53\<close>, and there \<open>n++\<close> leaves it as it is: the next two calls stamp the same
  id on two objects.
\<close>

theorem IdObject_mixin_repeats:
  "counter_after (replicate js_exact_limit suggestion_item) IdObject_n_init = js_exact_limit
   \<and> IdObject_mixin suggestion_item js_exact_limit
        = (Inr (with_id suggestion_item (int js_exact_limit)), js_exact_limit)
   \<and> IdObject_mixin symbol_item js_exact_limit
        = (Inr (with_id symbol_item (int js_exact_limit)), js_exact_limit)
   \<and> Get (with_id suggestion_item (int js_exact_limit)) ''_id''
        = Get (with_id symbol_item (int js_exact_limit)) ''_id''"
proof -
  have "IdObject_n_init + length (replicate js_exact_limit suggestion_item) \<le> js_exact_limit"
    by (simp add: IdObject_n_init_def)
  from counter_after_exact [OF this]
  have 1: "counter_after (replicate js_exact_limit suggestion_item) IdObject_n_init = js_exact_limit"
    by (simp add: IdObject_n_init_def)
  have 2: "IdObject_mixin suggestion_item js_exact_limit
        = (Inr (with_id suggestion_item (int js_exact_limit)), js_exact_limit)"
    using mixin_fresh [OF suggestion_item_fresh] by (simp add: js_increment_limit)
  have 3: "IdObject_mixin symbol_item js_exact_limit
        = (Inr (with_id symbol_item (int js_exact_limit)), js_exact_limit)"
    using mixin_fresh [OF symbol_item_fresh] by (simp add: js_increment_limit)
  have 4: "Get (with_id suggestion_item (int js_exact_limit)) ''_id''
        = Get (with_id symbol_item (int js_exact_limit)) ''_id''"
    by (simp add: Get_def GetOwnProperty_def with_id_def suggestion_item_def symbol_item_def)
  from 1 2 3 4 show ?thesis by blast
qed

text \<open>
  C1, amended. While the counter is below \<open>2^53\<close>, handle allocation is strictly
  monotonic: when two successive calls of \<open>IdObject.mixin\<close> both return and the counter was
  below \<open>2^53\<close> before the first, the second object carries a strictly larger \<open>_id\<close> than
  the first; and in a run of the process, which starts with the counter at 0, any two
  objects stamped by the calls number \<open>i < j \<le> 2^53\<close> (counted from 0), of whatever
  category, carry different ids, the later one the larger.
\<close>

theorem IdObject_mixin_monotonic:
  "(n < js_exact_limit \<and>
    IdObject_mixin a n = (Inr a', n1) \<and> IdObject_mixin b n1 = (Inr b', n2) \<longrightarrow>
      (\<exists>x y. Get a' ''_id'' = JSNumber x \<and> Get b' ''_id'' = JSNumber y \<and> x < y))
   \<and> (i < j \<and> j < length objects \<and> j \<le> js_exact_limit \<and>
      mixin_calls objects IdObject_n_init ! i = Inr c' \<and>
      mixin_calls objects IdObject_n_init ! j = Inr d' \<longrightarrow>
      (\<exists>x y. Get c' ''_id'' = JSNumber x \<and> Get d' ''_id'' = JSNumber y \<and> x < y))"
proof (intro conjI impI)
  assume h: "n < js_exact_limit \<and>
    IdObject_mixin a n = (Inr a', n1) \<and> IdObject_mixin b n1 = (Inr b', n2)"
  then have "Get a' ''_id'' = JSNumber (int n)" and "n1 = js_increment n"
    and "Get b' ''_id'' = JSNumber (int n1)"
    using IdObject_mixin_id by blast+
  with h show "\<exists>x y. Get a' ''_id'' = JSNumber x \<and> Get b' ''_id'' = JSNumber y \<and> x < y"
    by (simp add: js_increment_below)
next
  assume h: "i < j \<and> j < length objects \<and> j \<le> js_exact_limit \<and>
      mixin_calls objects IdObject_n_init ! i = Inr c' \<and>
      mixin_calls objects IdObject_n_init ! j = Inr d'"
  then have "i < length objects" and "j < length objects"
    and "IdObject_n_init + i \<le> js_exact_limit" and "IdObject_n_init + j \<le> js_exact_limit"
    by (simp_all add: IdObject_n_init_def)
  with h have "Get c' ''_id'' = JSNumber (int (IdObject_n_init + i))"
    and "Get d' ''_id'' = JSNumber (int (IdObject_n_init + j))"
    by (blast intro: mixin_calls_nth)+
  with h show "\<exists>x y. Get c' ''_id'' = JSNumber x \<and> Get d' ''_id'' = JSNumber y \<and> x < y"
    by simp
qed

theorem IdObject_mixin_monotonic_witness:
  "(0::nat) < js_exact_limit
   \<and> IdObject_mixin suggestion_item 0 = (Inr (with_id suggestion_item 0), 1)
   \<and> IdObject_mixin symbol_item 1 = (Inr (with_id symbol_item 1), 2)
   \<and> (\<exists>x y. Get (with_id suggestion_item 0) ''_id'' = JSNumber x
          \<and> Get (with_id symbol_item 1) ''_id'' = JSNumber y \<and> x < y)
   \<and> (0::nat) < 2 \<and> 2 < length [suggestion_item, frozen_item, symbol_item]
   \<and> (2::nat) \<le> js_exact_limit
   \<and> mixin_calls [suggestion_item, frozen_item, symbol_item] IdObject_n_init
        = [Inr (with_id suggestion_item 0), Inl TypeError, Inr (with_id symbol_item 2)]
   \<and> (\<exists>x y. Get (with_id suggestion_item 0) ''_id'' = JSNumber x
          \<and> Get (with_id symbol_item 2) ''_id'' = JSNumber y \<and> x < y)"
proof -
  have l0: "(0::nat) < js_exact_limit" and l1: "(1::nat) < js_exact_limit"
    and l2: "(2::nat) < js_exact_limit"
    by (simp_all add: js_exact_limit_def)
  have a: "IdObject_mixin suggestion_item 0 = (Inr (with_id suggestion_item 0), 1)"
    using mixin_fresh [OF suggestion_item_fresh, of 0] js_increment_below [OF l0] by simp
  have b: "IdObject_mixin symbol_item 1 = (Inr (with_id symbol_item 1), 2)"
    using mixin_fresh [OF symbol_item_fresh, of 1] js_increment_below [OF l1] by simp
  have f: "IdObject_mixin frozen_item 1 = (Inl TypeError, 2)"
    using frozen_item_throws [of 1] js_increment_below [OF l1] by simp
  have b2: "IdObject_mixin symbol_item 2 = (Inr (with_id symbol_item 2), 3)"
    using mixin_fresh [OF symbol_item_fresh, of 2] js_increment_below [OF l2] by simp
  have r1: "mixin_calls [symbol_item] 2 = [Inr (with_id symbol_item 2)]"
    by (simp add: b2)
  have r2: "mixin_calls [frozen_item, symbol_item] 1 = [Inl TypeError, Inr (with_id symbol_item 2)]"
    using mixin_calls.simps(2) [of frozen_item "[symbol_item]" 1] by (simp only: f r1 prod.case)
  have r: "mixin_calls [suggestion_item, frozen_item, symbol_item] IdObject_n_init
        = [Inr (with_id suggestion_item 0), Inl TypeError, Inr (with_id symbol_item 2)]"
    using mixin_calls.simps(2) [of suggestion_item "[frozen_item, symbol_item]" 0]
    by (simp only: a r2 prod.case IdObject_n_init_def)
  have n0: "mixin_calls [suggestion_item, frozen_item, symbol_item] IdObject_n_init ! 0
        = Inr (with_id suggestion_item 0)"
    by (simp only: r nth_Cons_0)
  have n2: "mixin_calls [suggestion_item, frozen_item, symbol_item] IdObject_n_init ! 2
        = Inr (with_id symbol_item 2)"
    by (simp only: r) simp
  have l: "(0::nat) < 2 \<and> 2 < length [suggestion_item, frozen_item, symbol_item]"
    by simp
  note t = IdObject_mixin_monotonic [where a = suggestion_item and n = 0
      and a' = "with_id suggestion_item 0" and ?n1.0 = 1 and b = symbol_item
      and b' = "with_id symbol_item 1" and ?n2.0 = 2 and i = 0 and j = 2
      and objects = "[suggestion_item, frozen_item, symbol_item]"
      and c' = "with_id suggestion_item 0" and d' = "with_id symbol_item 2"]
  have j: "(2::nat) \<le> js_exact_limit"
    using l2 by simp
  from t l0 a b have e1: "\<exists>x y. Get (with_id suggestion_item 0) ''_id'' = JSNumber x
          \<and> Get (with_id symbol_item 1) ''_id'' = JSNumber y \<and> x < y"
    by blast
  from t l j n0 n2 have e2: "\<exists>x y. Get (with_id suggestion_item 0) ''_id'' = JSNumber x
          \<and> Get (with_id symbol_item 2) ''_id'' = JSNumber y \<and> x < y"
    by blast
  from l0 a b e1 l j r e2 show ?thesis by blast
qed

text \<open>
  C10, as the claim states it, fails: at \<open>2^53\<close> a call does not increment the counter, and
  the ids are not unique from there on. A symbol and a suggestion stamped one after the
  other both get the id \<open>2^53\<close>.
\<close>

theorem IdObject_counter_stalls:
  "js_exact_limit = 2 ^ 53
   \<and> snd (IdObject_mixin symbol_item js_exact_limit) = js_exact_limit
   \<and> mixin_calls [symbol_item, suggestion_item] js_exact_limit
       = [Inr (with_id symbol_item (int js_exact_limit)),
          Inr (with_id suggestion_item (int js_exact_limit))]"
proof -
  have 2: "IdObject_mixin suggestion_item js_exact_limit
        = (Inr (with_id suggestion_item (int js_exact_limit)), js_exact_limit)"
    using mixin_fresh [OF suggestion_item_fresh] by (simp add: js_increment_limit)
  have 3: "IdObject_mixin symbol_item js_exact_limit
        = (Inr (with_id symbol_item (int js_exact_limit)), js_exact_limit)"
    using mixin_fresh [OF symbol_item_fresh] by (simp add: js_increment_limit)
  have 1: "js_exact_limit = 2 ^ 53"
    by (simp add: js_exact_limit_def)
  from 3 have 4: "snd (IdObject_mixin symbol_item js_exact_limit) = js_exact_limit"
    by simp
  have r1: "mixin_calls [suggestion_item] js_exact_limit
       = [Inr (with_id suggestion_item (int js_exact_limit))]"
    by (simp add: 2)
  have 5: "mixin_calls [symbol_item, suggestion_item] js_exact_limit
       = [Inr (with_id symbol_item (int js_exact_limit)),
          Inr (with_id suggestion_item (int js_exact_limit))]"
    using mixin_calls.simps(2) [of symbol_item "[suggestion_item]" js_exact_limit]
    by (simp only: 3 r1 prod.case)
  from 1 4 5 show ?thesis by blast
qed

text \<open>
  C10, amended. The allocator keeps one counter and takes no account of the object it is
  handed: the object that \<open>IdObject.mixin\<close> returns carries the value the counter had, and
  while the counter is below \<open>2^53\<close> every call, also one that throws, leaves the counter
  one larger. So in a run that starts with the counter at \<open>n\<close>, the call number \<open>i\<close> (from
  0) stamps the id \<open>n + i\<close> as long as \<open>n + i \<le> 2^53\<close>, independently of the objects
  stamped: the ids that \<open>IdObject.mixin\<close> stamps before the counter reaches \<open>2^53\<close> are
  unique and increasing across all kinds of objects handed to it.
\<close>

theorem IdObject_single_counter:
  "(n < js_exact_limit \<longrightarrow> snd (IdObject_mixin object n) = n + 1)
   \<and> (fst (IdObject_mixin object n) = Inr object' \<longrightarrow> Get object' ''_id'' = JSNumber (int n))
   \<and> (i < length objects \<and> n + i \<le> js_exact_limit \<and> mixin_calls objects n ! i = Inr stamped \<longrightarrow>
         Get stamped ''_id'' = JSNumber (int (n + i)))"
proof (intro conjI impI)
  assume "n < js_exact_limit"
  then show "snd (IdObject_mixin object n) = n + 1"
    by (simp add: IdObject_mixin_def js_increment_below)
next
  assume "fst (IdObject_mixin object n) = Inr object'"
  then have "IdObject_mixin object n = (Inr object', js_increment n)"
    by (simp add: IdObject_mixin_def)
  then show "Get object' ''_id'' = JSNumber (int n)"
    using IdObject_mixin_id by blast
next
  assume "i < length objects \<and> n + i \<le> js_exact_limit \<and> mixin_calls objects n ! i = Inr stamped"
  then show "Get stamped ''_id'' = JSNumber (int (n + i))"
    using mixin_calls_nth by blast
qed

theorem IdObject_single_counter_witness:
  "(5::nat) < js_exact_limit
   \<and> snd (IdObject_mixin frozen_item 5) = 5 + 1
   \<and> fst (IdObject_mixin symbol_item 5) = Inr (with_id symbol_item 5)
   \<and> Get (with_id symbol_item 5) ''_id'' = JSNumber 5
   \<and> (1::nat) < length [symbol_item, suggestion_item]
   \<and> (5::nat) + 1 \<le> js_exact_limit
   \<and> mixin_calls [symbol_item, suggestion_item] 5
        = [Inr (with_id symbol_item 5), Inr (with_id suggestion_item 6)]
   \<and> Get (with_id suggestion_item 6) ''_id'' = JSNumber 6"
proof -
  have l5: "(5::nat) < js_exact_limit" and l6: "(6::nat) < js_exact_limit"
    and l56: "(5::nat) + 1 \<le> js_exact_limit"
    by (simp_all add: js_exact_limit_def)
  have a: "IdObject_mixin symbol_item 5 = (Inr (with_id symbol_item 5), 6)"
    using mixin_fresh [OF symbol_item_fresh, of 5] js_increment_below [OF l5] by simp
  have b: "IdObject_mixin suggestion_item 6 = (Inr (with_id suggestion_item 6), 7)"
    using mixin_fresh [OF suggestion_item_fresh, of 6] js_increment_below [OF l6] by simp
  have r1: "mixin_calls [suggestion_item] 6 = [Inr (with_id suggestion_item 6)]"
    by (simp add: b)
  have r: "mixin_calls [symbol_item, suggestion_item] 5
        = [Inr (with_id symbol_item 5), Inr (with_id suggestion_item 6)]"
    using mixin_calls.simps(2) [of symbol_item "[suggestion_item]" 5]
    by (simp only: a r1 prod.case)
  have n1: "mixin_calls [symbol_item, suggestion_item] 5 ! 1 = Inr (with_id suggestion_item 6)"
    by (simp only: r) simp
  have l: "(1::nat) < length [symbol_item, suggestion_item]" by simp
  note t1 = IdObject_single_counter [where object = frozen_item and n = 5]
  note t2 = IdObject_single_counter [where object = symbol_item and n = 5
      and object' = "with_id symbol_item 5" and i = 1
      and objects = "[symbol_item, suggestion_item]" and stamped = "with_id suggestion_item 6"]
  from t1 l5 have c1: "snd (IdObject_mixin frozen_item 5) = 5 + 1"
    by blast
  from a have c2: "fst (IdObject_mixin symbol_item 5) = Inr (with_id symbol_item 5)"
    by simp
  from t2 c2 have c3: "Get (with_id symbol_item 5) ''_id'' = JSNumber (int 5)"
    by blast
  from t2 l l56 n1 have c4: "Get (with_id suggestion_item 6) ''_id'' = JSNumber (int (5 + 1))"
    by blast
  from c3 have c3': "Get (with_id symbol_item 5) ''_id'' = JSNumber 5" by simp
  from c4 have c4': "Get (with_id suggestion_item 6) ''_id'' = JSNumber 6" by simp
  from l5 c1 c2 c3' l l56 r c4' show ?thesis by blast
qed

subsection \<open>Object identity\<close>

text \<open>
  C2, as the claim states it, fails: the identity is defined \<open>enumerable: true\<close>, so a
  consumer that enumerates the object sees it. A suggestion with the one visible key
  \<open>label\<close> has the visible keys \<open>label\<close> and \<open>$ident\<close> once it is stamped.
\<close>

theorem ObjectIdentifier_mixin_visible:
  "Object_keys suggestion_item = [''label'']
   \<and> ObjectIdentifier_mixin suggestion_item 7 = Inr (with_ident suggestion_item 7)
   \<and> Object_keys (with_ident suggestion_item 7) = [''label'', ''$ident'']"
  by (simp add: suggestion_item_def with_ident_def Object_keys_def ObjectIdentifier_mixin_def
        Object_defineProperty_def GetOwnProperty_def ObjectIdentifier_name_def or_else_def)

text \<open>
  C2, amended. When \<open>ObjectIdentifier.mixin(obj, id)\<close> returns, every property of the
  object other than \<open>$ident\<close> is unchanged (its value and its attributes), the other
  visible keys are the same in the same order, the object is as extensible as before,
  \<open>ObjectIdentifier.of\<close> reads the id back, and \<open>$ident\<close> is one of the visible keys.
\<close>

theorem ObjectIdentifier_mixin_frame:
  assumes "ObjectIdentifier_mixin obj ident = Inr obj'"
  shows "(\<forall>k. k \<noteq> ObjectIdentifier_name \<longrightarrow> GetOwnProperty obj' k = GetOwnProperty obj k)
       \<and> filter (\<lambda>k. k \<noteq> ObjectIdentifier_name) (Object_keys obj')
           = filter (\<lambda>k. k \<noteq> ObjectIdentifier_name) (Object_keys obj)
       \<and> extensible obj' = extensible obj
       \<and> ObjectIdentifier_of obj' = JSNumber ident
       \<and> ObjectIdentifier_name \<in> set (Object_keys obj')"
proof -
  from assms have d: "Object_defineProperty obj ObjectIdentifier_name
       \<lparr>d_value = Some (JSNumber ident), d_writable = None,
        d_enumerable = Some True, d_configurable = None\<rparr> = Inr obj'"
    by (simp add: ObjectIdentifier_mixin_def)
  have 1: "\<forall>k. k \<noteq> ObjectIdentifier_name \<longrightarrow> GetOwnProperty obj' k = GetOwnProperty obj k"
    using defineProperty_other [OF d] by blast
  have 2: "filter (\<lambda>k. k \<noteq> ObjectIdentifier_name) (Object_keys obj')
           = filter (\<lambda>k. k \<noteq> ObjectIdentifier_name) (Object_keys obj)"
    by (rule defineProperty_keys_other [OF d])
  have 3: "extensible obj' = extensible obj"
    by (rule defineProperty_extensible [OF d])
  have 4: "ObjectIdentifier_of obj' = JSNumber ident"
    using mixin_ident_property [OF assms] by (auto simp: ObjectIdentifier_of_def Get_def)
  have 5: "ObjectIdentifier_name \<in> set (Object_keys obj')"
    by (rule mixin_ident_key [OF assms])
  from 1 2 3 4 5 show ?thesis by blast
qed

theorem ObjectIdentifier_mixin_frame_witness:
  "ObjectIdentifier_mixin symbol_item 42 = Inr (with_ident symbol_item 42)
   \<and> ''kind'' \<noteq> ObjectIdentifier_name
   \<and> GetOwnProperty (with_ident symbol_item 42) ''kind'' = GetOwnProperty symbol_item ''kind''
   \<and> filter (\<lambda>k. k \<noteq> ObjectIdentifier_name) (Object_keys (with_ident symbol_item 42))
       = filter (\<lambda>k. k \<noteq> ObjectIdentifier_name) (Object_keys symbol_item)
   \<and> extensible (with_ident symbol_item 42) = extensible symbol_item
   \<and> ObjectIdentifier_of (with_ident symbol_item 42) = JSNumber 42
   \<and> ObjectIdentifier_name \<in> set (Object_keys (with_ident symbol_item 42))"
proof -
  have h: "ObjectIdentifier_mixin symbol_item 42 = Inr (with_ident symbol_item 42)"
    by (simp add: symbol_item_def with_ident_def ObjectIdentifier_mixin_def
          Object_defineProperty_def GetOwnProperty_def ObjectIdentifier_name_def or_else_def)
  have k: "''kind'' \<noteq> ObjectIdentifier_name"
    by (simp add: ObjectIdentifier_name_def)
  from ObjectIdentifier_mixin_frame [OF h] h k show ?thesis by blast
qed

subsection \<open>Delta synchronisation\<close>




subsection \<open>The capability tables\<close>

text \<open>
  C4. Every shape registered in \<open>MainContext\<close> extends \<open>IDisposable\<close>; no shape registered
  in \<open>ExtHostContext\<close> does, and none declares an operation that disposes.
\<close>

theorem main_shapes_disposable:
  "(\<forall>e\<in>set MainContext. disposable (entry_shape e))
   \<and> (\<forall>e\<in>set ExtHostContext. \<not> disposable (entry_shape e)
         \<and> (\<forall>p\<in>set (operations (entry_shape e)). \<not> disposal_operation p))"
  by code_simp

theorem main_shapes_disposable_witness:
  "Entry ''MainThreadWindow'' MainThreadWindowShape (createMainId ''MainThreadWindow'') \<in> set MainContext
   \<and> disposable MainThreadWindowShape
   \<and> Entry ''ExtHostWindow'' ExtHostWindowShape (createExtId ''ExtHostWindow'') \<in> set ExtHostContext
   \<and> \<not> disposable ExtHostWindowShape
   \<and> Op ''$onDidChangeWindowFocus'' [(''value'', ''boolean'')] Void \<in> set (operations ExtHostWindowShape)
   \<and> \<not> disposal_operation (Op ''$onDidChangeWindowFocus'' [(''value'', ''boolean'')] Void)"
proof -
  have m: "Entry ''MainThreadWindow'' MainThreadWindowShape (createMainId ''MainThreadWindow'')
             \<in> set MainContext"
    by (simp add: MainContext_def)
  have x: "Entry ''ExtHostWindow'' ExtHostWindowShape (createExtId ''ExtHostWindow'')
             \<in> set ExtHostContext"
    by (simp add: ExtHostContext_def)
  have p: "Op ''$onDidChangeWindowFocus'' [(''value'', ''boolean'')] Void
             \<in> set (operations ExtHostWindowShape)"
    by (simp add: ExtHostWindowShape_def)
  from main_shapes_disposable m have 1: "disposable MainThreadWindowShape"
    by fastforce
  from main_shapes_disposable x have 2: "\<not> disposable ExtHostWindowShape
      \<and> (\<forall>p\<in>set (operations ExtHostWindowShape). \<not> disposal_operation p)"
    by fastforce
  from m x p 1 2 show ?thesis by blast
qed

text \<open>
  C5, as the claim states it, fails: \<open>$onInputBoxValueChange\<close> of the source-control shape
  of the extension host is named in notify style and declares a deferred result,
  \<open>TPromise<void>\<close>.
\<close>

theorem notify_with_deferred_result:
  "onInputBoxValueChange \<in> set (operations ExtHostSCMShape)
   \<and> Entry ''ExtHostSCM'' ExtHostSCMShape (createExtId ''ExtHostSCM'') \<in> set ExtHostContext
   \<and> onInputBoxValueChange \<in> set protocol_operations
   \<and> fire_and_forget onInputBoxValueChange
   \<and> op_returns onInputBoxValueChange = TPromise ''void''
   \<and> op_returns onInputBoxValueChange \<noteq> Void"
  by code_simp

text \<open>
  C5, amended. Every operation of the protocol whose name has the accept prefix declares
  the return type \<open>void\<close>, not a deferred result, and so does every operation whose name
  has the notify prefix, except \<open>$onInputBoxValueChange\<close> of \<open>ExtHostSCMShape\<close>, which
  declares \<open>TPromise<void>\<close>. There are sixteen operations in accept style, all of the
  extension host, and twelve in notify style. (What becomes of a failure of such a call
  is decided by the transport, which these declarations do not contain.)
\<close>

theorem fire_and_forget_void:
  "(\<forall>p\<in>set protocol_operations. accept_style p \<longrightarrow> op_returns p = Void)
   \<and> (\<forall>p\<in>set protocol_operations.
         notify_style p \<and> p \<noteq> onInputBoxValueChange \<longrightarrow> op_returns p = Void)
   \<and> filter (\<lambda>p. fire_and_forget p \<and> op_returns p \<noteq> Void) protocol_operations
       = [onInputBoxValueChange]
   \<and> length (filter accept_style protocol_operations) = 16
   \<and> length (filter accept_style
                (concat (map (\<lambda>e. operations (entry_shape e)) ExtHostContext))) = 16
   \<and> length (filter notify_style protocol_operations) = 12"
  by code_simp

theorem fire_and_forget_void_witness:
  "Op ''$acceptDocumentsAndEditorsDelta'' [(''delta'', ''IDocumentsAndEditorsDelta'')] Void
      \<in> set protocol_operations
   \<and> accept_style (Op ''$acceptDocumentsAndEditorsDelta'' [(''delta'', ''IDocumentsAndEditorsDelta'')] Void)
   \<and> op_returns (Op ''$acceptDocumentsAndEditorsDelta'' [(''delta'', ''IDocumentsAndEditorsDelta'')] Void)
       = Void
   \<and> Op ''$onGarbageCollection'' [(''ids'', ''number[]'')] Void \<in> set protocol_operations
   \<and> notify_style (Op ''$onGarbageCollection'' [(''ids'', ''number[]'')] Void)
   \<and> Op ''$onGarbageCollection'' [(''ids'', ''number[]'')] Void \<noteq> onInputBoxValueChange
   \<and> op_returns (Op ''$onGarbageCollection'' [(''ids'', ''number[]'')] Void) = Void"
proof -
  have m: "Op ''$acceptDocumentsAndEditorsDelta'' [(''delta'', ''IDocumentsAndEditorsDelta'')] Void
      \<in> set protocol_operations"
    by code_simp
  have f: "accept_style
      (Op ''$acceptDocumentsAndEditorsDelta'' [(''delta'', ''IDocumentsAndEditorsDelta'')] Void)"
    by code_simp
  have m': "Op ''$onGarbageCollection'' [(''ids'', ''number[]'')] Void \<in> set protocol_operations"
    by code_simp
  have f': "notify_style (Op ''$onGarbageCollection'' [(''ids'', ''number[]'')] Void)"
    by code_simp
  have n: "Op ''$onGarbageCollection'' [(''ids'', ''number[]'')] Void \<noteq> onInputBoxValueChange"
    by code_simp
  from fire_and_forget_void m f
  have 1: "op_returns (Op ''$acceptDocumentsAndEditorsDelta''
             [(''delta'', ''IDocumentsAndEditorsDelta'')] Void) = Void"
    by blast
  from fire_and_forget_void m' f' n
  have 2: "op_returns (Op ''$onGarbageCollection'' [(''ids'', ''number[]'')] Void) = Void"
    by blast
  from m f 1 m' f' n 2 show ?thesis by blast
qed

text \<open>
  C6. The names registered in \<open>MainContext\<close> are pairwise distinct, the names registered in
  \<open>ExtHostContext\<close> are pairwise distinct, and no name is registered in both tables; the
  identifiers of the first table are on the host side, those of the second on the
  extension side.
\<close>

theorem registered_names_distinct:
  "distinct (registered_names MainContext)
   \<and> distinct (registered_names ExtHostContext)
   \<and> set (registered_names MainContext) \<inter> set (registered_names ExtHostContext) = {}
   \<and> map (\<lambda>e. side (entry_id e)) MainContext = replicate 27 Host
   \<and> map (\<lambda>e. side (entry_id e)) ExtHostContext = replicate 22 Extension"
  by code_simp

text \<open>
  C8. The heap-service shape has the one operation \<open>$onGarbageCollection(ids: number[])\<close>,
  which returns \<open>void\<close>; it is the only operation of garbage collection in the protocol,
  and the heap service is the only capability that has one.
\<close>

theorem garbage_collection_channel:
  "operations ExtHostHeapServiceShape = [Op ''$onGarbageCollection'' [(''ids'', ''number[]'')] Void]
   \<and> filter gc_related protocol_operations
       = [Op ''$onGarbageCollection'' [(''ids'', ''number[]'')] Void]
   \<and> map entry_key (filter (\<lambda>e. list_ex gc_related (operations (entry_shape e)))
                            (MainContext @ ExtHostContext))
       = [''ExtHostHeapService'']"
  by code_simp

text \<open>
  C9. The registered name differs from the key of the table for exactly two entries:
  \<open>MainThreadDialogs\<close>, registered as \<open>MainThreadDiaglogs\<close>, and \<open>ExtHostHeapService\<close>,
  registered as \<open>ExtHostHeapMonitor\<close>. No identifier is registered under the name
  \<open>MainThreadDialogs\<close> or \<open>ExtHostHeapService\<close>, so a resolution by name has to use the
  registered string.
\<close>

theorem name_differs_from_key:
  "map (\<lambda>e. (entry_key e, name (entry_id e)))
       (filter (\<lambda>e. name (entry_id e) \<noteq> entry_key e) (MainContext @ ExtHostContext))
     = [(''MainThreadDialogs'', ''MainThreadDiaglogs''), (''ExtHostHeapService'', ''ExtHostHeapMonitor'')]
   \<and> find (\<lambda>e. name (entry_id e) = ''MainThreadDialogs'') (MainContext @ ExtHostContext) = None
   \<and> find (\<lambda>e. name (entry_id e) = ''ExtHostHeapService'') (MainContext @ ExtHostContext) = None
   \<and> map_option entry_key
        (find (\<lambda>e. name (entry_id e) = ''MainThreadDiaglogs'') (MainContext @ ExtHostContext))
       = Some ''MainThreadDialogs''
   \<and> map_option entry_key
        (find (\<lambda>e. name (entry_id e) = ''ExtHostHeapMonitor'') (MainContext @ ExtHostContext))
       = Some ''ExtHostHeapService''"
  by code_simp

end
